theory Spec2Isabelle
  imports Complex_Main "HOL-Library.Word"
begin

section \<open>Conventions of the embedding\<close>

text \<open>
  The inversion driver \<^verbatim>\<open>main-essfwi2d.cpp\<close> computes on C++ \<^verbatim>\<open>float\<close> and
  \<^verbatim>\<open>double\<close> values. Wave fields, gradients, misfits and the step lengths tried by the
  line search are embedded as real numbers: the rounding of the arithmetic and overflow
  to infinity are outside the embedding, and a theorem whose statement divides carries
  the hypothesis that the divisor is not zero. Two things of the floating point
  arithmetic are embedded, because the driver's results depend on them:

  \<^item> a value that can be a not-a-number (a cell of the velocity model, the vertex of the
    fitted parabola, the step length that \<^verbatim>\<open>calStepLen\<close> returns and stores) has the type
    \<open>fl\<close>, a real number or \<open>NaN\<close>; arithmetic with a \<open>NaN\<close> operand gives \<open>NaN\<close> and every
    ordering comparison with a \<open>NaN\<close> operand is false;

  \<^item> the conversion of an integer to \<^verbatim>\<open>float\<close> (24 bits of significand, round to nearest,
    ties to even), which the loop test of \<^verbatim>\<open>update_vel\<close> performs on its counter.

  A C array passed as pointer and length is a list; a function that writes into a buffer
  takes the buffer and returns it updated. A call of \<^verbatim>\<open>exit\<close> is the left summand of the
  result.
\<close>

datatype error = Exit int

datatype fl = Num real | NaN

fun fl_add :: "fl \<Rightarrow> fl \<Rightarrow> fl" where
  "fl_add (Num a) (Num b) = Num (a + b)"
| "fl_add _ _ = NaN"

fun fl_mul :: "fl \<Rightarrow> fl \<Rightarrow> fl" where
  "fl_mul (Num a) (Num b) = Num (a * b)"
| "fl_mul _ _ = NaN"

fun fl_less :: "fl \<Rightarrow> fl \<Rightarrow> bool" where
  "fl_less (Num a) (Num b) = (a < b)"
| "fl_less _ _ = False"

text \<open>
  The value of a non-negative \<^verbatim>\<open>int\<close> (or \<^verbatim>\<open>size_t\<close>) converted to \<^verbatim>\<open>float\<close>. Up to \<open>2\<^sup>2\<^sup>4\<close>
  the conversion is exact. Above, the integer \<open>n\<close> of \<open>bit_length n\<close> bits keeps its 24
  leading bits \<open>q\<close>; the remainder \<open>r\<close> of the \<open>e\<close> dropped bits rounds \<open>q\<close> up when it is
  more than half a unit of the last kept bit, or exactly half with \<open>q\<close> odd.
\<close>

function bit_length :: "nat \<Rightarrow> nat" where
  "bit_length n = (if n = 0 then 0 else Suc (bit_length (n div 2)))"
  by pat_completeness auto
termination
  by (relation "measure id") auto

declare bit_length.simps [simp del]

definition float_of_nat :: "nat \<Rightarrow> real" where
  "float_of_nat n =
     (if n \<le> 2 ^ 24 then real n
      else (let e = bit_length n - 24;
                q = n div 2 ^ e;
                r = n mod 2 ^ e
            in if 2 * r > 2 ^ e \<or> (2 * r = 2 ^ e \<and> odd q) then real ((q + 1) * 2 ^ e)
               else real (q * 2 ^ e)))"

section \<open>Velocity update with clamp\<close>

text \<open>
  \<^verbatim>\<open>update_vel\<close>, lines 509 to 524. The loop body first adds the scaled gradient and
  then applies the two clamps in the order of the source, each an ordering comparison
  of the cell just written. The parameter \<^verbatim>\<open>size\<close> is a \<^verbatim>\<open>float\<close>: the loop test
  \<^verbatim>\<open>i < size\<close> converts the counter to \<^verbatim>\<open>float\<close>, and the loop ends at the first counter
  whose conversion is not below \<^verbatim>\<open>size\<close>. The cells of the buffer \<^verbatim>\<open>new_vel\<close> are written
  one after the other, and the cells the loop does not reach keep what the buffer held;
  the counter ranges over the cells of the buffer. A turn of the loop reads and writes
  the cells of its own counter only, so the result is the same when \<^verbatim>\<open>vel\<close> and
  \<^verbatim>\<open>new_vel\<close> are one array, as in \<^verbatim>\<open>main\<close>.
\<close>

definition update_cell :: "fl \<Rightarrow> real \<Rightarrow> fl \<Rightarrow> real \<Rightarrow> real \<Rightarrow> fl" where
  "update_cell v g steplen vmin vmax =
     (let n0 = fl_add v (fl_mul steplen (Num g));
          n1 = (if fl_less (Num vmax) n0 then Num vmax else n0);
          n2 = (if fl_less n1 (Num vmin) then Num vmin else n1)
      in n2)"

definition update_vel ::
  "fl list \<Rightarrow> real list \<Rightarrow> real \<Rightarrow> fl \<Rightarrow> real \<Rightarrow> real \<Rightarrow> fl list \<Rightarrow> error + fl list" where
  "update_vel vel grad sz steplen vmin vmax new_vel =
     (if vmax \<le> vmin then Inl (Exit 0)
      else Inr (foldl (\<lambda>b i. b[i := update_cell (vel ! i) (grad ! i) steplen vmin vmax]) new_vel
                  (takeWhile (\<lambda>i. float_of_nat i < sz) [0..<length new_vel])))"

text \<open>
  Lines 921 to 926 of \<^verbatim>\<open>main\<close>: the driver updates the padded model in place (the
  source array and the buffer are both \<^verbatim>\<open>exvel.dat\<close>, the size is
  \<^verbatim>\<open>exvel.dat.size()\<close> converted to \<^verbatim>\<open>float\<close>) and hands it to
  \<^verbatim>\<open>Damp4t10d::refillBoundary\<close>, whose code is not in the repository sources at hand and
  is a parameter here. The clamp bounds are computed in \<^verbatim>\<open>main\<close> from the constants
  \<^verbatim>\<open>vmax = 5500\<close> and \<^verbatim>\<open>vmin = 1500\<close>.
\<close>

definition vmax_const :: real where "vmax_const = 5500"
definition vmin_const :: real where "vmin_const = 1500"
definition maxdv_const :: real where "maxdv_const = 200"

definition main_min_vel :: "real \<Rightarrow> real \<Rightarrow> real" where
  "main_min_vel dx dt = (dx / dt / vmax_const) * (dx / dt / vmax_const)"

definition main_max_vel :: "real \<Rightarrow> real \<Rightarrow> real" where
  "main_max_vel dx dt = (dx / dt / vmin_const) * (dx / dt / vmin_const)"

definition main_update_model ::
  "(fl list \<Rightarrow> fl list) \<Rightarrow> fl list \<Rightarrow> real list \<Rightarrow> fl \<Rightarrow> real \<Rightarrow> real
     \<Rightarrow> error + fl list" where
  "main_update_model refillBoundary exvel updateDirection steplen dx dt =
     (case update_vel exvel updateDirection (float_of_nat (length exvel)) steplen
             (main_min_vel dx dt) (main_max_vel dx dt) exvel of
        Inl e \<Rightarrow> Inl e
      | Inr v \<Rightarrow> Inr (refillBoundary v))"

section \<open>Adjoint virtual source filter\<close>

text \<open>
  \<^verbatim>\<open>second_order_virtual_source_forth_accuracy\<close>, lines 274 to 294. The function copies
  the trace into \<^verbatim>\<open>tmp_vsrc\<close> and reads only the copy, so every output cell is a
  function of the input trace. The parameter \<^verbatim>\<open>dt\<close> is part of the signature. The index
  tests are on C \<^verbatim>\<open>int\<close>s and are written on integers here.
\<close>

definition vsrc_cell :: "real list \<Rightarrow> nat \<Rightarrow> nat \<Rightarrow> real" where
  "vsrc_cell tmp_vsrc num i =
     (if i \<le> 1 then 0
      else if int num - 1 = int i \<or> int num - 2 = int i then 0
      else - 1 / 12 * tmp_vsrc ! (i - 2) + 4 / 3 * tmp_vsrc ! (i - 1)
           - 5 / 2 * tmp_vsrc ! i + 4 / 3 * tmp_vsrc ! (i + 1) - 1 / 12 * tmp_vsrc ! (i + 2))"

definition second_order_virtual_source_forth_accuracy ::
  "real list \<Rightarrow> nat \<Rightarrow> real \<Rightarrow> real list" where
  "second_order_virtual_source_forth_accuracy vsrc num dt =
     map (\<lambda>i. vsrc_cell vsrc num i) [0..<num]"

text \<open>
  \<^verbatim>\<open>transVsrc\<close>, lines 296 to 306. \<^verbatim>\<open>matrix_transpose\<close> comes from a header that is
  not among the sources and is a parameter: it maps the source buffer and the two
  dimensions to the destination buffer. The filter runs in place on the \<open>ng\<close> traces of
  length \<open>nt\<close> of the transposed buffer. The result pairs the new \<^verbatim>\<open>vsrc\<close> with the
  buffer handed to \<^verbatim>\<open>sfFloatWrite2d\<close> for the file \<^verbatim>\<open>vsrc.rsf\<close>.
\<close>

definition filter_traces :: "real list \<Rightarrow> nat \<Rightarrow> nat \<Rightarrow> real \<Rightarrow> real list" where
  "filter_traces trans0 nt ng dt =
     concat (map (\<lambda>ig. second_order_virtual_source_forth_accuracy
                          (take nt (drop (ig * nt) trans0)) nt dt) [0..<ng])
     @ drop (ng * nt) trans0"

definition transVsrc ::
  "(real list \<Rightarrow> nat \<Rightarrow> nat \<Rightarrow> real list) \<Rightarrow> real list \<Rightarrow> nat \<Rightarrow> nat \<Rightarrow> real
     \<Rightarrow> real list \<times> real list" where
  "transVsrc matrix_transpose vsrc nt ng dt =
     (let trans0 = matrix_transpose vsrc ng nt;
          trans1 = filter_traces trans0 nt ng dt
      in (matrix_transpose trans1 nt ng, trans1))"

section \<open>Conjugate direction\<close>




section \<open>Collaborators that are not among the sources\<close>

text \<open>
  The classes \<^verbatim>\<open>Velocity\<close>, \<^verbatim>\<open>ShotPosition\<close> and \<^verbatim>\<open>Damp4t10d\<close> are used by the driver
  but their code is not among the sources. A \<^verbatim>\<open>Velocity\<close> is the flat array with its two
  dimensions (its cells are written by \<^verbatim>\<open>update_vel\<close> and can be not-a-number), a
  \<^verbatim>\<open>ShotPosition\<close> holds the six constructor arguments of
  \<^verbatim>\<open>ShotPosition(zbeg, xbeg, jz, jx, ns, nz)\<close>. The methods of \<^verbatim>\<open>Damp4t10d\<close> are fields
  of a record of functions, so that every theorem holds for any implementation of them;
  each takes the velocity bound to the object as its first argument and returns the
  buffers it may write (\<^verbatim>\<open>recordSeis\<close> the rest of the gather from the position it was
  given).
\<close>

record Velocity =
  dat :: "fl list"
  nx :: nat
  nz :: nat

record ShotPosition =
  zbeg :: int
  xbeg :: int
  jz :: int
  jx :: int
  ns :: nat
  nz :: nat

record Damp4t10d =
  velocity :: Velocity
  stepForward_impl :: "Velocity \<Rightarrow> real list \<times> real list \<Rightarrow> real list \<times> real list"
  stepBackward_impl :: "Velocity \<Rightarrow> real list \<times> real list \<Rightarrow> real list \<times> real list"
  addSource_impl :: "Velocity \<Rightarrow> real list \<Rightarrow> real list \<Rightarrow> ShotPosition \<Rightarrow> real list"
  subSource_impl :: "Velocity \<Rightarrow> real list \<Rightarrow> real list \<Rightarrow> ShotPosition \<Rightarrow> real list"
  recordSeis_impl :: "Velocity \<Rightarrow> real list \<Rightarrow> real list \<Rightarrow> ShotPosition \<Rightarrow> real list"
  removeDirectArrival_impl ::
    "Velocity \<Rightarrow> ShotPosition \<Rightarrow> ShotPosition \<Rightarrow> real list \<Rightarrow> nat \<Rightarrow> real \<Rightarrow> real list"

definition getVelocity :: "Damp4t10d \<Rightarrow> Velocity" where
  "getVelocity fm = velocity fm"

definition bindVelocity :: "Damp4t10d \<Rightarrow> Velocity \<Rightarrow> Damp4t10d" where
  "bindVelocity fm v = fm\<lparr>velocity := v\<rparr>"

definition stepForward :: "Damp4t10d \<Rightarrow> real list \<times> real list \<Rightarrow> real list \<times> real list" where
  "stepForward fm p = stepForward_impl fm (velocity fm) p"

definition stepBackward :: "Damp4t10d \<Rightarrow> real list \<times> real list \<Rightarrow> real list \<times> real list" where
  "stepBackward fm p = stepBackward_impl fm (velocity fm) p"

definition addSource :: "Damp4t10d \<Rightarrow> real list \<Rightarrow> real list \<Rightarrow> ShotPosition \<Rightarrow> real list" where
  "addSource fm p src pos = addSource_impl fm (velocity fm) p src pos"

definition subSource :: "Damp4t10d \<Rightarrow> real list \<Rightarrow> real list \<Rightarrow> ShotPosition \<Rightarrow> real list" where
  "subSource fm p src pos = subSource_impl fm (velocity fm) p src pos"

definition recordSeis :: "Damp4t10d \<Rightarrow> real list \<Rightarrow> real list \<Rightarrow> ShotPosition \<Rightarrow> real list" where
  "recordSeis fm seis p pos = recordSeis_impl fm (velocity fm) seis p pos"

definition removeDirectArrival ::
  "Damp4t10d \<Rightarrow> ShotPosition \<Rightarrow> ShotPosition \<Rightarrow> real list \<Rightarrow> nat \<Rightarrow> real \<Rightarrow> real list" where
  "removeDirectArrival fm spos gpos d nt t = removeDirectArrival_impl fm (velocity fm) spos gpos d nt t"

section \<open>Backward gradient pass\<close>

text \<open>
  \<^verbatim>\<open>cross_correlation\<close>, lines 346 to 352: the first \<open>model_size\<close> cells of the image are
  decreased by the scaled product of the two fields.
\<close>

definition cross_correlation ::
  "real list \<Rightarrow> real list \<Rightarrow> real list \<Rightarrow> nat \<Rightarrow> real \<Rightarrow> real list" where
  "cross_correlation src_wave vsrc_wave img model_size scale =
     map (\<lambda>i. img ! i - src_wave ! i * vsrc_wave ! i * scale) [0..<model_size]
     @ drop model_size img"

text \<open>
  \<^verbatim>\<open>hello\<close>, lines 354 to 483. The checkpoint files are named by the time step (or
  \<^verbatim>\<open>last\<close>) and the buffer role 1 or 2; \<^verbatim>\<open>readBin\<close> is a parameter that maps a file and
  the destination buffer to the buffer read. The four fields start from the values drawn
  with \<^verbatim>\<open>rand()\<close>, a parameter. The loop state is the four fields and the gradient
  image.
\<close>

datatype check_file = check_time_last nat | check_time nat nat

record hello_state =
  sp0 :: "real list"
  sp1 :: "real list"
  gp0 :: "real list"
  gp1 :: "real list"
  g0 :: "real list"

definition check_step :: nat where "check_step = 50"

text \<open>The loop body from the checkpoint reads to the second swap, lines 383 to 461.\<close>

definition hello_fields ::
  "(check_file \<Rightarrow> real list \<Rightarrow> real list) \<Rightarrow> Damp4t10d \<Rightarrow> ShotPosition \<Rightarrow> real list
     \<Rightarrow> ShotPosition \<Rightarrow> real list \<Rightarrow> nat \<Rightarrow> nat \<Rightarrow> hello_state \<Rightarrow> hello_state" where
  "hello_fields readBin fmMethod allSrcPos encSrc allGeoPos vsrc nt it s =
     (let ns = ShotPosition.ns allSrcPos;
          ng = ShotPosition.ns allGeoPos;
          (a1, a0) =
            (if int it = int nt - 1 then
               (readBin (check_time_last 1) (sp1 s), readBin (check_time_last 2) (sp0 s))
             else if check_step > 0 \<and> it mod check_step = 0 \<and> it \<noteq> 0 then
               (readBin (check_time it 1) (sp1 s), readBin (check_time it 2) (sp0 s))
             else (sp1 s, sp0 s));
          (b0, b1) = stepBackward fmMethod (a0, a1);
          (c0, c1) = (b1, b0);
          d0 = subSource fmMethod c0 (drop (it * ns) encSrc) allSrcPos;
          e1 = addSource fmMethod (gp1 s) (drop (it * ng) vsrc) allGeoPos;
          (f0, f1) = stepForward fmMethod (gp0 s, e1);
          (h0, h1) = (f1, f0)
      in s\<lparr>sp0 := d0, sp1 := c1, gp0 := h0, gp1 := h1\<rparr>)"

text \<open>
  The time loop runs \<open>it\<close> from \<open>nt - 1\<close> down to 0; the first argument of the recursion is
  \<open>it + 1\<close>. The last branch of the conditional is the \<^verbatim>\<open>break\<close>.
\<close>

fun hello_loop ::
  "(check_file \<Rightarrow> real list \<Rightarrow> real list) \<Rightarrow> Damp4t10d \<Rightarrow> ShotPosition \<Rightarrow> real list
     \<Rightarrow> ShotPosition \<Rightarrow> real list \<Rightarrow> nat \<Rightarrow> real \<Rightarrow> nat \<Rightarrow> hello_state \<Rightarrow> hello_state" where
  "hello_loop readBin fmMethod allSrcPos encSrc allGeoPos vsrc nt dt 0 s = s"
| "hello_loop readBin fmMethod allSrcPos encSrc allGeoPos vsrc nt dt (Suc it) s =
     (let s1 = hello_fields readBin fmMethod allSrcPos encSrc allGeoPos vsrc nt it s in
      if dt * real it > 4 / 10 then
        hello_loop readBin fmMethod allSrcPos encSrc allGeoPos vsrc nt dt it
          (s1\<lparr>g0 := cross_correlation (sp0 s1) (gp0 s1) (g0 s1) (length (g0 s1)) 1\<rparr>)
      else if dt * real it > 3 / 10 then
        hello_loop readBin fmMethod allSrcPos encSrc allGeoPos vsrc nt dt it
          (s1\<lparr>g0 := cross_correlation (sp0 s1) (gp0 s1) (g0 s1) (length (g0 s1))
                          ((dt * real it - 3 / 10) / (1 / 10))\<rparr>)
      else s1)"

definition hello ::
  "(check_file \<Rightarrow> real list \<Rightarrow> real list) \<Rightarrow> hello_state \<Rightarrow> Damp4t10d \<Rightarrow> ShotPosition
     \<Rightarrow> real list \<Rightarrow> ShotPosition \<Rightarrow> real list \<Rightarrow> real list \<Rightarrow> nat \<Rightarrow> real \<Rightarrow> real list" where
  "hello readBin rnd fmMethod allSrcPos encSrc allGeoPos vsrc g nt dt =
     g0 (hello_loop readBin fmMethod allSrcPos encSrc allGeoPos vsrc nt dt nt (rnd\<lparr>g0 := g\<rparr>))"

text \<open>
  The claim about the time ramp, in its own words: every time step from \<open>nt - 1\<close> down
  to 0 advances the fields, and cell \<open>i\<close> of the image decreases by the product of the
  two fields at \<open>i\<close> times the weight \<open>time_ramp dt it\<close>, which is 1 above 0.4, linear
  between 0.3 and 0.4, and 0 up to 0.3.
\<close>

definition time_ramp :: "real \<Rightarrow> nat \<Rightarrow> real" where
  "time_ramp dt it =
     (if dt * real it > 4 / 10 then 1
      else if dt * real it > 3 / 10 then (dt * real it - 3 / 10) / (1 / 10)
      else 0)"

fun ramp_loop ::
  "(check_file \<Rightarrow> real list \<Rightarrow> real list) \<Rightarrow> Damp4t10d \<Rightarrow> ShotPosition \<Rightarrow> real list
     \<Rightarrow> ShotPosition \<Rightarrow> real list \<Rightarrow> nat \<Rightarrow> real \<Rightarrow> nat \<Rightarrow> hello_state \<Rightarrow> hello_state" where
  "ramp_loop readBin fmMethod allSrcPos encSrc allGeoPos vsrc nt dt 0 s = s"
| "ramp_loop readBin fmMethod allSrcPos encSrc allGeoPos vsrc nt dt (Suc it) s =
     (let s1 = hello_fields readBin fmMethod allSrcPos encSrc allGeoPos vsrc nt it s in
      ramp_loop readBin fmMethod allSrcPos encSrc allGeoPos vsrc nt dt it
        (s1\<lparr>g0 := map (\<lambda>i. g0 s1 ! i - time_ramp dt it * (sp0 s1 ! i * gp0 s1 ! i))
                        [0..<length (g0 s1)]\<rparr>))"

section \<open>Step length search\<close>

text \<open>
  \<^verbatim>\<open>forwardModeling\<close>, lines 240 to 268: the time loop over two fields that start at 0;
  each step writes the samples of the receivers into the gather from position \<open>it * ng\<close>.
\<close>

definition forwardModeling_step ::
  "Damp4t10d \<Rightarrow> ShotPosition \<Rightarrow> ShotPosition \<Rightarrow> real list
     \<Rightarrow> real list \<times> real list \<times> real list \<Rightarrow> nat \<Rightarrow> real list \<times> real list \<times> real list" where
  "forwardModeling_step fmMethod allSrcPos allGeoPos encSrc st it =
     (case st of (p0, p1, dobs) \<Rightarrow>
        (let ns = ShotPosition.ns allSrcPos;
             ng = ShotPosition.ns allGeoPos;
             a1 = addSource fmMethod p1 (drop (it * ns) encSrc) allSrcPos;
             (b0, b1) = stepForward fmMethod (p0, a1);
             dobs' = take (it * ng) dobs
                       @ recordSeis fmMethod (drop (it * ng) dobs) b0 allGeoPos
         in (b1, b0, dobs')))"

definition forwardModeling ::
  "Damp4t10d \<Rightarrow> ShotPosition \<Rightarrow> ShotPosition \<Rightarrow> real list \<Rightarrow> real list \<Rightarrow> nat \<Rightarrow> real list" where
  "forwardModeling fmMethod allSrcPos allGeoPos encSrc dobs nt =
     (let nxpad = Velocity.nx (getVelocity fmMethod);
          nzpad = Velocity.nz (getVelocity fmMethod);
          p0 = replicate (nzpad * nxpad) 0;
          p1 = replicate (nzpad * nxpad) 0
      in snd (snd (foldl (forwardModeling_step fmMethod allSrcPos allGeoPos encSrc)
                     (p0, p1, dobs) [0..<nt])))"

text \<open>\<^verbatim>\<open>vectorMinus\<close>, lines 270 to 272: \<^verbatim>\<open>std::transform\<close> over the length of the first
  argument.\<close>

definition vectorMinus :: "real list \<Rightarrow> real list \<Rightarrow> real list \<Rightarrow> real list" where
  "vectorMinus dobs dcal vsrc =
     map (\<lambda>i. dobs ! i - dcal ! i) [0..<length dobs] @ drop (length dobs) vsrc"

text \<open>
  \<^verbatim>\<open>calculate_obj_val\<close>, lines 540 to 582. \<^verbatim>\<open>cal_objective\<close> comes from a header that is
  not among the sources, and the cells of the buffer that \<^verbatim>\<open>malloc\<close> returns are not
  determined by the program: both are parameters, the fields of \<open>externals\<close>. The size
  passed to \<^verbatim>\<open>update_vel\<close> is the \<^verbatim>\<open>int\<close> \<^verbatim>\<open>size\<close> converted to \<^verbatim>\<open>float\<close>; the new model
  is made of the first \<^verbatim>\<open>size\<close> cells of the buffer. The value stored through
  \<^verbatim>\<open>obj_val_out\<close> is the result; the call of \<^verbatim>\<open>update_vel\<close> can end the process.
\<close>

record externals =
  cal_objective :: "real list \<Rightarrow> nat \<Rightarrow> real"
  malloc :: "nat \<Rightarrow> fl list"

definition calculate_obj_val ::
  "externals \<Rightarrow> Damp4t10d \<Rightarrow> ShotPosition \<Rightarrow> ShotPosition \<Rightarrow> real list
     \<Rightarrow> real list \<Rightarrow> real list \<Rightarrow> fl list \<Rightarrow> nat \<Rightarrow> real \<Rightarrow> real \<Rightarrow> real \<Rightarrow> real \<Rightarrow> real
     \<Rightarrow> error + real" where
  "calculate_obj_val ext fmMethod allSrcPos allGeoPos encsrc encobs grad vel nt dt fm
       vmin vmax steplen =
     (let nx0 = Velocity.nx (getVelocity fmMethod);
          nz0 = Velocity.nz (getVelocity fmMethod);
          sz = nx0 * nz0
      in case update_vel vel grad (float_of_nat sz) (Num steplen) vmin vmax (malloc ext sz) of
           Inl e \<Rightarrow> Inl e
         | Inr new_vel \<Rightarrow>
             (let updateVel = \<lparr>dat = take sz new_vel, nx = nx0, nz = nz0\<rparr>;
                  updateMethod = bindVelocity fmMethod updateVel;
                  ng = ShotPosition.ns allGeoPos;
                  dcal = forwardModeling updateMethod allSrcPos allGeoPos encsrc
                           (replicate (nt * ng) 0) nt;
                  dcal' = removeDirectArrival updateMethod allSrcPos allGeoPos dcal nt (15 / 100);
                  vdiff = vectorMinus encobs dcal' (replicate (nt * ng) 0);
                  val = cal_objective ext vdiff (length vdiff)
              in Inr val))"

text \<open>
  The set \<^verbatim>\<open>tunedAlpha\<close> is a \<^verbatim>\<open>std::set\<close> of pairs (step length, misfit) ordered by
  \<^verbatim>\<open>parabolicLessComp\<close>, lines 81 to 83, which compares the misfits with a tolerance of
  \<open>10\<^sup>-\<^sup>1\<^sup>0\<close>. The comparison is not a strict ordering (a pair is less than itself), so
  what the set holds depends on how the container searches: it is embedded as the
  red-black tree of the GNU C++ library.

  \<^item> \<^verbatim>\<open>insert\<close> descends from the root, to the left where the new pair is less than the
    pair of the node and to the right otherwise. The pair \<open>j\<close> before the position
    reached is the pair of the last node where the descent went right; the new pair is
    inserted if there is no such node or if \<open>j\<close> is less than the new pair, and is
    dropped otherwise.
  \<^item> The new node is red and hangs at the position reached. The tree is then rebalanced
    from the new node upwards: while the parent of the node \<open>x\<close> at hand is red, if the
    uncle is red too, parent and uncle become black, the grandparent becomes red and
    \<open>x\<close> moves to the grandparent; if not, one or two rotations put the middle one of
    \<open>x\<close>, parent and grandparent on top, black, over the two others, red, and the loop
    ends. \<open>fix_left\<close> and \<open>fix_right\<close> are a turn of that loop seen from the grandparent,
    after an insertion into its left or right subtree; they change something only when
    that subtree has a red root with a red child, which in a red-black tree is the case
    only for the parent of \<open>x\<close>. At the end the root becomes black.
  \<^item> \<^verbatim>\<open>begin()\<close> is the leftmost node, \<^verbatim>\<open>clear()\<close> leaves the empty tree, and an
    iteration visits the pairs in the order \<open>inorder\<close>.
\<close>

type_synonym ParaPoint = "real \<times> real"

definition parabolicLessComp :: "ParaPoint \<Rightarrow> ParaPoint \<Rightarrow> bool" where
  "parabolicLessComp a b = (snd a - snd b < 1 / 10 ^ 10)"

datatype color = Red | Black

datatype rbt = Leaf | Node (rb_color: color) (rb_left: rbt) (rb_key: ParaPoint) (rb_right: rbt)

fun is_red :: "rbt \<Rightarrow> bool" where
  "is_red (Node Red l k r) = True"
| "is_red t = False"

fun blacken :: "rbt \<Rightarrow> rbt" where
  "blacken (Node c l k r) = Node Black l k r"
| "blacken Leaf = Leaf"

definition fix_left :: "color \<Rightarrow> rbt \<Rightarrow> ParaPoint \<Rightarrow> rbt \<Rightarrow> rbt" where
  "fix_left c p z u =
     (if is_red p \<and> is_red (rb_left p) then
        (if is_red u then Node Red (blacken p) z (blacken u)
         else Node Black (rb_left p) (rb_key p) (Node Red (rb_right p) z u))
      else if is_red p \<and> is_red (rb_right p) then
        (if is_red u then Node Red (blacken p) z (blacken u)
         else Node Black (Node Red (rb_left p) (rb_key p) (rb_left (rb_right p)))
                (rb_key (rb_right p)) (Node Red (rb_right (rb_right p)) z u))
      else Node c p z u)"

definition fix_right :: "color \<Rightarrow> rbt \<Rightarrow> ParaPoint \<Rightarrow> rbt \<Rightarrow> rbt" where
  "fix_right c u z p =
     (if is_red p \<and> is_red (rb_right p) then
        (if is_red u then Node Red (blacken u) z (blacken p)
         else Node Black (Node Red u z (rb_left p)) (rb_key p) (rb_right p))
      else if is_red p \<and> is_red (rb_left p) then
        (if is_red u then Node Red (blacken u) z (blacken p)
         else Node Black (Node Red u z (rb_left (rb_left p))) (rb_key (rb_left p))
                (Node Red (rb_right (rb_left p)) (rb_key p) (rb_right p)))
      else Node c u z p)"

fun ins :: "ParaPoint \<Rightarrow> rbt \<Rightarrow> rbt" where
  "ins k Leaf = Node Red Leaf k Leaf"
| "ins k (Node c l y r) =
     (if parabolicLessComp k y then fix_left c (ins k l) y r
      else fix_right c l y (ins k r))"

fun last_right :: "ParaPoint \<Rightarrow> rbt \<Rightarrow> ParaPoint option \<Rightarrow> ParaPoint option" where
  "last_right k Leaf j = j"
| "last_right k (Node c l y r) j =
     (if parabolicLessComp k y then last_right k l j else last_right k r (Some y))"

definition set_insert :: "ParaPoint \<Rightarrow> rbt \<Rightarrow> rbt" where
  "set_insert k t =
     (case last_right k t None of
        None \<Rightarrow> blacken (ins k t)
      | Some j \<Rightarrow> if parabolicLessComp j k then blacken (ins k t) else t)"

fun set_begin :: "rbt \<Rightarrow> ParaPoint" where
  "set_begin (Node c Leaf k r) = k"
| "set_begin (Node c (Node c' l' k' r') k r) = set_begin (Node c' l' k' r')"

fun inorder :: "rbt \<Rightarrow> ParaPoint list" where
  "inorder Leaf = []"
| "inorder (Node c l k r) = inorder l @ k # inorder r"

definition max_iter_select_alpha3 :: nat where "max_iter_select_alpha3 = 5"

text \<open>
  The local variables of \<^verbatim>\<open>selectAlpha\<close> that its loops change, and the values it stores
  through its reference parameters.
\<close>

record tuning =
  t_alpha2 :: real
  t_obj_val2 :: real
  t_alpha3 :: real
  t_obj_val3 :: real
  t_tunedAlpha :: rbt

record selected =
  out_alpha2 :: real
  out_obj_val2 :: real
  out_alpha3 :: real
  out_obj_val3 :: real
  toParabolicFit :: bool

text \<open>
  The halving loop, lines 614 to 630. The argument \<open>ev\<close> stands for the call of
  \<^verbatim>\<open>calculate_obj_val\<close> with every argument but the step length, which is the same in
  all calls of one run of \<^verbatim>\<open>selectAlpha\<close>. The result pairs the final \<open>iter\<close> with the
  locals.
\<close>

function halving ::
  "(real \<Rightarrow> error + real) \<Rightarrow> real \<Rightarrow> nat \<Rightarrow> tuning \<Rightarrow> error + nat \<times> tuning" where
  "halving ev obj_val1 iter t =
     (if iter < max_iter_select_alpha3 \<and> t_obj_val2 t > obj_val1 then
        (let a2 = t_alpha2 t / 2 in
         case ev a2 of
           Inl e \<Rightarrow> Inl e
         | Inr v \<Rightarrow>
             halving ev obj_val1 (iter + 1)
               \<lparr>t_alpha2 = a2, t_obj_val2 = v, t_alpha3 = t_alpha2 t, t_obj_val3 = t_obj_val2 t,
                t_tunedAlpha = set_insert (a2, v) (t_tunedAlpha t)\<rparr>)
      else Inr (iter, t))"
  by pat_completeness auto
termination
  by (relation "measure (\<lambda>(ev, obj_val1, iter, t). max_iter_select_alpha3 - iter)") auto

declare halving.simps [simp del]

text \<open>
  The doubling loop, lines 672 to 685. Nothing bounds the number of its turns when the
  step length is not positive, so it is a partial function: \<open>None\<close> is a run that never
  leaves the loop.
\<close>

partial_function (option) doubling ::
  "(real \<Rightarrow> error + real) \<Rightarrow> real \<Rightarrow> real \<Rightarrow> real \<Rightarrow> tuning \<Rightarrow> (error + tuning) option" where
  "doubling ev obj_val1 linearFitAlph3 maxAlpha3 t =
     (if t_obj_val3 t < linearFitAlph3 \<and> t_obj_val3 t < obj_val1 \<and> t_alpha3 t < maxAlpha3 then
        (let a3 = min (t_alpha3 t * 2) maxAlpha3 in
         case ev a3 of
           Inl e \<Rightarrow> Some (Inl e)
         | Inr v \<Rightarrow>
             doubling ev obj_val1 linearFitAlph3 maxAlpha3
               \<lparr>t_alpha2 = t_alpha3 t, t_obj_val2 = t_obj_val3 t, t_alpha3 = a3, t_obj_val3 = v,
                t_tunedAlpha = set_insert (a3, v) (t_tunedAlpha t)\<rparr>)
      else Some (Inr t))"

text \<open>
  The body of \<^verbatim>\<open>selectAlpha\<close>, lines 584 to 716, over the evaluation \<open>ev\<close>. In the first
  fallback the misfit stored for \<open>alpha3\<close> is evaluated at the local \<^verbatim>\<open>alpha3\<close>, in the
  second the misfit stored for \<open>alpha2\<close> at the local \<^verbatim>\<open>alpha2\<close>, as the source does.
\<close>

definition selectAlpha_body ::
  "(real \<Rightarrow> error + real) \<Rightarrow> real \<Rightarrow> real \<Rightarrow> real \<Rightarrow> real \<Rightarrow> (error + selected) option" where
  "selectAlpha_body ev obj_val1 maxAlpha3 alpha2_in alpha3_in =
     (case ev alpha2_in of Inl e \<Rightarrow> Some (Inl e) | Inr obj_val2 \<Rightarrow>
     (case ev alpha3_in of Inl e \<Rightarrow> Some (Inl e) | Inr obj_val3 \<Rightarrow>
     (case halving ev obj_val1 0
             \<lparr>t_alpha2 = alpha2_in, t_obj_val2 = obj_val2, t_alpha3 = alpha3_in,
              t_obj_val3 = obj_val3, t_tunedAlpha = set_insert (alpha2_in, obj_val2) Leaf\<rparr> of
        Inl e \<Rightarrow> Some (Inl e)
      | Inr (iter, t) \<Rightarrow>
          if t_obj_val2 t > obj_val1 then
            (let it = set_begin (t_tunedAlpha t);
                 a2 = fst it;
                 o2 = snd it;
                 a3 = min (a2 * 2) maxAlpha3
             in (case ev (t_alpha3 t) of
                   Inl e \<Rightarrow> Some (Inl e)
                 | Inr o3 \<Rightarrow>
                     Some (Inr \<lparr>out_alpha2 = a2, out_obj_val2 = o2, out_alpha3 = a3,
                                out_obj_val3 = o3, toParabolicFit = False\<rparr>)))
          else
            (let alpha1 = 0;
                 linearFitAlph3 =
                   (t_obj_val2 t - obj_val1) / (t_alpha2 t - alpha1) * (t_alpha3 t - alpha1)
                     + obj_val1
             in (case doubling ev obj_val1 linearFitAlph3 maxAlpha3
                        (t\<lparr>t_tunedAlpha := set_insert (t_alpha3 t, t_obj_val3 t) Leaf\<rparr>) of
                   None \<Rightarrow> None
                 | Some (Inl e) \<Rightarrow> Some (Inl e)
                 | Some (Inr u) \<Rightarrow>
                     if t_alpha3 u > maxAlpha3 + 1 / 10 then
                       (let it = set_begin (t_tunedAlpha u);
                            a3 = fst it;
                            o3 = snd it;
                            a2 = a3 / 2
                        in (case ev (t_alpha2 u) of
                              Inl e \<Rightarrow> Some (Inl e)
                            | Inr o2 \<Rightarrow>
                                Some (Inr \<lparr>out_alpha2 = a2, out_obj_val2 = o2, out_alpha3 = a3,
                                           out_obj_val3 = o3, toParabolicFit = False\<rparr>)))
                     else
                       Some (Inr \<lparr>out_alpha2 = t_alpha2 u, out_obj_val2 = t_obj_val2 u,
                                  out_alpha3 = t_alpha3 u, out_obj_val3 = t_obj_val3 u,
                                  toParabolicFit = True\<rparr>))))))"

definition selectAlpha ::
  "externals \<Rightarrow> Damp4t10d \<Rightarrow> ShotPosition \<Rightarrow> ShotPosition \<Rightarrow> real list
     \<Rightarrow> real list \<Rightarrow> real list \<Rightarrow> nat \<Rightarrow> real \<Rightarrow> real \<Rightarrow> real \<Rightarrow> real \<Rightarrow> real \<Rightarrow> real
     \<Rightarrow> real \<Rightarrow> real \<Rightarrow> (error + selected) option" where
  "selectAlpha ext fmMethod allSrcPos allGeoPos encsrc encobs grad nt dt fm
       obj_val1 vmin vmax maxAlpha3 alpha2_in alpha3_in =
     selectAlpha_body
       (calculate_obj_val ext fmMethod allSrcPos allGeoPos encsrc encobs grad
          (dat (getVelocity fmMethod)) nt dt fm vmin vmax)
       obj_val1 maxAlpha3 alpha2_in alpha3_in"

text \<open>
  \<^verbatim>\<open>calMaxAlpha2_3\<close>, lines 485 to 507. \<^verbatim>\<open>FLT_MAX\<close> is the largest finite single
  precision value, \<open>(2 - 2\<^sup>-\<^sup>2\<^sup>3) * 2\<^sup>1\<^sup>2\<^sup>7\<close>. A cell of the model that is not a number
  makes the comparison of line 498 false and leaves \<^verbatim>\<open>alpha2\<close> as it is.
\<close>

definition FLT_MAX :: real where
  "FLT_MAX = 340282346638528859811704183484516925440"

definition calMaxAlpha_cell :: "fl list \<Rightarrow> real list \<Rightarrow> real \<Rightarrow> real \<Rightarrow> real \<Rightarrow> real \<Rightarrow> nat \<Rightarrow> real" where
  "calMaxAlpha_cell vel grad dt dx maxdv alpha2 i =
     (case vel ! i of
        NaN \<Rightarrow> alpha2
      | Num v \<Rightarrow>
          (let tmpv0 = dx / (dt * sqrt v);
               tmpv1 = tmpv0 - maxdv;
               tmpv = (dx / (dt * tmpv1)) * (dx / (dt * tmpv1))
           in if \<bar>grad ! i\<bar> < 1 / 10 ^ 10 then alpha2
              else if alpha2 > (tmpv - v) / \<bar>grad ! i\<bar> then (tmpv - v) / \<bar>grad ! i\<bar>
              else alpha2))"

definition calMaxAlpha2_3 :: "Velocity \<Rightarrow> real list \<Rightarrow> real \<Rightarrow> real \<Rightarrow> real \<Rightarrow> real \<times> real" where
  "calMaxAlpha2_3 exvel grad dt dx maxdv =
     (let alpha2 = foldl (calMaxAlpha_cell (dat exvel) grad dt dx maxdv) FLT_MAX
                     [0..<Velocity.nx exvel * Velocity.nz exvel]
      in (alpha2, 2 * alpha2))"

text \<open>
  Modelled from the spec: the singleton \<^verbatim>\<open>PreservedAlpha\<close> is declared in a header that
  is not among the sources. The spec describes it as a map from the index of the velocity
  parameter to the last step length, with an initialized flag per index; the code reads
  and writes both through \<^verbatim>\<open>getIsInit()[ivel]\<close> and \<^verbatim>\<open>getAlpha()[ivel]\<close>. The state is
  passed and returned. The type parameter is the type of the step lengths it holds:
  real numbers in the state that a call starts from, \<open>fl\<close> in the state that
  \<^verbatim>\<open>calStepLen\<close> leaves, since the step length stored at line 787 can be not-a-number.
\<close>

record 'a PreservedAlpha =
  getIsInit :: "int \<Rightarrow> bool"
  getAlpha :: "int \<Rightarrow> 'a"

text \<open>
  \<^verbatim>\<open>initAlpha2_3\<close>, lines 526 to 538, returns the state and the two initial step lengths.
\<close>

definition initAlpha2_3 ::
  "real PreservedAlpha \<Rightarrow> int \<Rightarrow> real \<Rightarrow> real PreservedAlpha \<times> real \<times> real" where
  "initAlpha2_3 pa ivel max_alpha3 =
     (let minAlpha = 1 / 10 ^ 7;
          resetAlpha = 1 / 10 ^ 4;
          pa' = (if \<not> getIsInit pa ivel
                 then pa\<lparr>getIsInit := (getIsInit pa)(ivel := True),
                         getAlpha := (getAlpha pa)(ivel := max_alpha3)\<rparr>
                 else pa);
          initAlpha3_0 = getAlpha pa' ivel;
          initAlpha3 = (if initAlpha3_0 < minAlpha then resetAlpha else initAlpha3_0);
          initAlpha2 = initAlpha3 * (1 / 2)
      in (pa', initAlpha2, initAlpha3))"

text \<open>
  \<^verbatim>\<open>calcParabolaVertex\<close>, lines 718 to 726. With divisor 0 each of \<open>A\<close>, \<open>B\<close>, \<open>C\<close> is
  infinite or not a number, and both coordinates of the vertex are not-a-number
  (infinite by infinite, or an operand that is not a number). With \<open>A = 0\<close> and \<open>B = 0\<close>
  both quotients that divide by \<open>A\<close> are 0 by 0, not a number. With \<open>A = 0\<close> and
  \<open>B \<noteq> 0\<close> the coordinates are infinite with signs that depend on the rounding; that
  result is outside the embedding and is \<open>None\<close>.
\<close>

definition parabola_denom :: "real \<Rightarrow> real \<Rightarrow> real \<Rightarrow> real" where
  "parabola_denom x1 x2 x3 = (x1 - x2) * (x1 - x3) * (x2 - x3)"

definition parabola_A :: "real \<Rightarrow> real \<Rightarrow> real \<Rightarrow> real \<Rightarrow> real \<Rightarrow> real \<Rightarrow> real" where
  "parabola_A x1 y1 x2 y2 x3 y3 =
     (x3 * (y2 - y1) + x2 * (y1 - y3) + x1 * (y3 - y2)) / parabola_denom x1 x2 x3"

definition parabola_B :: "real \<Rightarrow> real \<Rightarrow> real \<Rightarrow> real \<Rightarrow> real \<Rightarrow> real \<Rightarrow> real" where
  "parabola_B x1 y1 x2 y2 x3 y3 =
     (x3 * x3 * (y1 - y2) + x2 * x2 * (y3 - y1) + x1 * x1 * (y2 - y3)) / parabola_denom x1 x2 x3"

definition parabola_C :: "real \<Rightarrow> real \<Rightarrow> real \<Rightarrow> real \<Rightarrow> real \<Rightarrow> real \<Rightarrow> real" where
  "parabola_C x1 y1 x2 y2 x3 y3 =
     (x2 * x3 * (x2 - x3) * y1 + x3 * x1 * (x3 - x1) * y2 + x1 * x2 * (x1 - x2) * y3)
       / parabola_denom x1 x2 x3"

definition calcParabolaVertex ::
  "real \<Rightarrow> real \<Rightarrow> real \<Rightarrow> real \<Rightarrow> real \<Rightarrow> real \<Rightarrow> (fl \<times> fl) option" where
  "calcParabolaVertex x1 y1 x2 y2 x3 y3 =
     (let A = parabola_A x1 y1 x2 y2 x3 y3;
          B = parabola_B x1 y1 x2 y2 x3 y3;
          C = parabola_C x1 y1 x2 y2 x3 y3
      in if parabola_denom x1 x2 x3 = 0 then Some (NaN, NaN)
         else if A \<noteq> 0 then Some (Num (- B / (2 * A)), Num (C - B * B / (4 * A)))
         else if B = 0 then Some (NaN, NaN)
         else None)"

text \<open>
  \<^verbatim>\<open>calcParabolaVertexEnhanced\<close>, lines 728 to 740. A slope with divisor 0 is infinite
  or not a number, and the comparison of line 734 is then false. The second disjunct of
  the test compares \<open>xv\<close> with a not-a-number by \<^verbatim>\<open>==\<close>, which is false for every
  operand. When the test holds both coordinates are overwritten; the result \<open>None\<close> of
  \<^verbatim>\<open>calcParabolaVertex\<close> arises only where the test holds (lemma \<open>vertex_defined\<close> below),
  so the last case of the definition is never taken.
\<close>

definition slopes_nearly_equal :: "real \<Rightarrow> real \<Rightarrow> real \<Rightarrow> real \<Rightarrow> real \<Rightarrow> real \<Rightarrow> bool" where
  "slopes_nearly_equal x1 y1 x2 y2 x3 y3 =
     (if x3 - x2 = 0 \<or> x2 - x1 = 0 then False
      else (let k2 = (y3 - y2) / (x3 - x2);
                k1 = (y2 - y1) / (x2 - x1)
            in \<bar>k2 - k1\<bar> < 1 / 1000 * max \<bar>k2\<bar> \<bar>k1\<bar>))"

definition calcParabolaVertexEnhanced ::
  "real \<Rightarrow> real \<Rightarrow> real \<Rightarrow> real \<Rightarrow> real \<Rightarrow> real \<Rightarrow> real \<Rightarrow> fl \<times> fl" where
  "calcParabolaVertexEnhanced x1 y1 x2 y2 x3 y3 max_alpha3 =
     (if slopes_nearly_equal x1 y1 x2 y2 x3 y3 \<or> False
      then (Num (min (2 * x3) max_alpha3), NaN)
      else (case calcParabolaVertex x1 y1 x2 y2 x3 y3 of
              Some v \<Rightarrow> v
            | None \<Rightarrow> (NaN, NaN)))"

text \<open>
  \<^verbatim>\<open>calStepLen\<close>, lines 743 to 789. The result holds the step length returned, the
  misfit \<^verbatim>\<open>obj_val4\<close> written to the log at line 785, and the state of
  \<^verbatim>\<open>PreservedAlpha\<close> after line 787.
\<close>

record step_length =
  alpha4 :: fl
  obj_val4 :: fl
  preserved :: "fl PreservedAlpha"

definition calStepLen ::
  "externals \<Rightarrow> real PreservedAlpha \<Rightarrow> Damp4t10d \<Rightarrow> ShotPosition \<Rightarrow> ShotPosition
     \<Rightarrow> real list \<Rightarrow> real list \<Rightarrow> real list \<Rightarrow> int \<Rightarrow> nat \<Rightarrow> int \<Rightarrow> real \<Rightarrow> real \<Rightarrow> real
     \<Rightarrow> real \<Rightarrow> real \<Rightarrow> real \<Rightarrow> (error + step_length) option" where
  "calStepLen ext pa fmMethod allSrcPos allGeoPos encsrc encobs updateDirection iter nt
       ivel dt dx fm obj_val1 min_vel max_vel =
     (let (max_alpha2, max_alpha3) =
            calMaxAlpha2_3 (getVelocity fmMethod) updateDirection dt dx maxdv_const;
          alpha1 = 0;
          (pa1, alpha2, alpha3) = initAlpha2_3 pa ivel max_alpha3
      in case selectAlpha ext fmMethod allSrcPos allGeoPos encsrc encobs updateDirection
                nt dt fm obj_val1 min_vel max_vel max_alpha3 alpha2 alpha3 of
           None \<Rightarrow> None
         | Some (Inl e) \<Rightarrow> Some (Inl e)
         | Some (Inr sel) \<Rightarrow>
             (let (a4, o4) =
                    (if toParabolicFit sel then
                       (let (xv, yv) = calcParabolaVertexEnhanced alpha1 obj_val1
                                         (out_alpha2 sel) (out_obj_val2 sel)
                                         (out_alpha3 sel) (out_obj_val3 sel) max_alpha3
                        in if fl_less (Num max_alpha3) xv then (Num max_alpha3, yv) else (xv, yv))
                     else (Num (out_alpha3 sel), Num (out_obj_val3 sel)))
              in Some (Inr \<lparr>alpha4 = a4, obj_val4 = o4,
                             preserved = \<lparr>getIsInit = getIsInit pa1,
                                          getAlpha = (\<lambda>i. Num (getAlpha pa1 i))(ivel := a4)\<rparr>\<rparr>)))"

section \<open>Concrete collaborators for evaluation\<close>

text \<open>
  A concrete implementation of the collaborators, for evaluating the definitions on
  inputs: every method returns the buffers it was given.
\<close>

definition idle_methods :: Damp4t10d where
  "idle_methods = \<lparr>velocity = \<lparr>dat = [], nx = 0, nz = 0\<rparr>,
      stepForward_impl = (\<lambda>v p. p), stepBackward_impl = (\<lambda>v p. p),
      addSource_impl = (\<lambda>v p src pos. p), subSource_impl = (\<lambda>v p src pos. p),
      recordSeis_impl = (\<lambda>v seis p pos. seis),
      removeDirectArrival_impl = (\<lambda>v spos gpos d nt t. d)\<rparr>"

definition one_position :: ShotPosition where
  "one_position = \<lparr>zbeg = 0, xbeg = 0, jz = 0, jx = 0, ns = 1, nz = 1\<rparr>"

text \<open>
  A second concrete implementation, in which the misfit depends on the step length: the
  model has one cell \<open>v\<close>, and the receivers record the cells of the velocity model bound
  to the object. With it, a gradient \<open>g\<close> and an observed sample \<open>e\<close>, the misfit at step
  \<open>a\<close> is the square of \<open>e\<close> minus the clamped \<open>v + a * g\<close>. \<^verbatim>\<open>used_alpha\<close> is a warm-start
  state after a step of length 1.
\<close>

fun fl_value :: "fl \<Rightarrow> real" where
  "fl_value (Num x) = x"
| "fl_value NaN = 0"

definition echo_methods :: "real \<Rightarrow> Damp4t10d" where
  "echo_methods v = \<lparr>velocity = \<lparr>dat = [Num v], nx = 1, nz = 1\<rparr>,
      stepForward_impl = (\<lambda>v p. p), stepBackward_impl = (\<lambda>v p. p),
      addSource_impl = (\<lambda>v p src pos. p), subSource_impl = (\<lambda>v p src pos. p),
      recordSeis_impl = (\<lambda>v seis p pos. map fl_value (dat v)),
      removeDirectArrival_impl = (\<lambda>v spos gpos d nt t. d)\<rparr>"

text \<open>
  Modelled from the spec: \<^verbatim>\<open>cal_objective\<close> is not among the sources. The spec describes
  the misfit as the sum of the squared residuals over all samples. The definition is used
  only where \<^verbatim>\<open>cal_objective\<close> is evaluated on an input; the theorems hold for any
  function in its place. In \<open>echo_externals\<close> the fresh buffer holds zeros.
\<close>

definition sum_of_squares :: "real list \<Rightarrow> nat \<Rightarrow> real" where
  "sum_of_squares v n = sum_list (map (\<lambda>x. x * x) (take n v))"

definition echo_externals :: externals where
  "echo_externals = \<lparr>cal_objective = sum_of_squares, malloc = (\<lambda>n. replicate n (Num 0))\<rparr>"

definition used_alpha :: "real PreservedAlpha" where
  "used_alpha = \<lparr>getIsInit = (\<lambda>i. True), getAlpha = (\<lambda>i. 1)\<rparr>"

section \<open>Geometry check of the Born modelling tool\<close>

text \<open>
  \<^verbatim>\<open>Params::check\<close> of \<^verbatim>\<open>main-born.cpp\<close>, lines 191 to 202, on the \<^verbatim>\<open>int\<close> fields of
  \<^verbatim>\<open>Params\<close> that it reads; they are 32-bit two's complement values, compared as signed.
\<close>

record Params =
  nz :: "32 word"
  nx :: "32 word"
  ng :: "32 word"
  ns :: "32 word"
  sxbeg :: "32 word"
  szbeg :: "32 word"
  gxbeg :: "32 word"
  gzbeg :: "32 word"
  jsx :: "32 word"
  jsz :: "32 word"
  jgx :: "32 word"
  jgz :: "32 word"

definition check :: "Params \<Rightarrow> error + unit" where
  "check p =
     (if \<not> (0 \<le>s sxbeg p \<and> 0 \<le>s szbeg p
            \<and> sxbeg p + (Params.ns p - 1) * jsx p <s Params.nx p
            \<and> szbeg p + (Params.ns p - 1) * jsz p <s Params.nz p) then Inl (Exit 1)
      else if \<not> (0 \<le>s gxbeg p \<and> 0 \<le>s gzbeg p
            \<and> gxbeg p + (Params.ng p - 1) * jgx p <s Params.nx p
            \<and> gzbeg p + (Params.ng p - 1) * jgz p <s Params.nz p) then Inl (Exit 1)
      else Inr ())"

text \<open>
  Modelled from the spec: the class \<^verbatim>\<open>ShotPosition\<close> that derives the grid positions is
  not among the sources. The spec gives the absolute index of lattice point \<open>i\<close> as
  \<open>(xbeg + i * jx) * nz + (zbeg + i * jz)\<close>, so its column is \<open>xbeg + i * jx\<close> and its row
  is \<open>zbeg + i * jz\<close>.
\<close>

definition source_x :: "Params \<Rightarrow> nat \<Rightarrow> int" where
  "source_x p i = sint (sxbeg p) + int i * sint (jsx p)"

definition source_z :: "Params \<Rightarrow> nat \<Rightarrow> int" where
  "source_z p i = sint (szbeg p) + int i * sint (jsz p)"

definition source_in_grid :: "Params \<Rightarrow> nat \<Rightarrow> bool" where
  "source_in_grid p i =
     (0 \<le> source_x p i \<and> source_x p i < sint (Params.nx p)
      \<and> 0 \<le> source_z p i \<and> source_z p i < sint (Params.nz p))"

section \<open>Properties of the velocity update\<close>

lemma float_of_nat_small: "n \<le> 2 ^ 24 \<Longrightarrow> float_of_nat n = real n"
  by (simp add: float_of_nat_def)

lemma foldl_update_prefix:
  "k \<le> length b \<Longrightarrow> foldl (\<lambda>b i. b[i := f i]) b [0..<k] = map f [0..<k] @ drop k b"
proof (induction k)
  case 0
  then show ?case by simp
next
  case (Suc k)
  then have k: "k < length b" by simp
  have "foldl (\<lambda>b i. b[i := f i]) b [0..<Suc k] = (map f [0..<k] @ drop k b)[k := f k]"
    using Suc by simp
  also have "\<dots> = map f [0..<k] @ (drop k b)[0 := f k]"
    by (simp add: list_update_append)
  also have "(drop k b)[0 := f k] = f k # drop (Suc k) b"
    using k by (simp add: Cons_nth_drop_Suc [symmetric])
  finally show ?case by simp
qed

lemma foldl_update_other:
  "i \<notin> set is \<Longrightarrow> foldl (\<lambda>b j. b[j := f j]) b is ! i = b ! i"
  by (induction "is" arbitrary: b) auto

lemma update_vel_all_cells:
  assumes "vmin < vmax" and "length new_vel = n" and "n \<le> 2 ^ 24"
  shows "update_vel vel grad (float_of_nat n) s vmin vmax new_vel
           = Inr (map (\<lambda>i. update_cell (vel ! i) (grad ! i) s vmin vmax) [0..<n])"
proof -
  have tw: "takeWhile (\<lambda>i. float_of_nat i < float_of_nat n) [0..<n] = [0..<n]"
    by (rule takeWhile_eq_all_conv [THEN iffD2]) (use assms(3) in \<open>simp add: float_of_nat_small\<close>)
  show ?thesis
    using assms(1,2) by (simp add: update_vel_def tw foldl_update_prefix)
qed




lemma bit_length_16809999: "bit_length 16809999 = 25"
  by (simp add: bit_length.simps)

lemma bit_length_16810000: "bit_length 16810000 = 25"
  by (simp add: bit_length.simps)

lemma float_of_nat_16809999: "float_of_nat 16809999 = 16810000"
  by (simp add: float_of_nat_def bit_length_16809999)

lemma float_of_nat_16810000: "float_of_nat 16810000 = 16810000"
  by (simp add: float_of_nat_def bit_length_16810000)

lemma update_vel_skips_cell:
  assumes "vmin < vmax" and "\<not> float_of_nat k < sz"
  shows "\<exists>out. update_vel vel grad sz s vmin vmax new_vel = Inr out \<and> out ! k = new_vel ! k"
proof -
  let ?is = "takeWhile (\<lambda>i. float_of_nat i < sz) [0..<length new_vel]"
  from assms(2) have "k \<notin> set ?is" using set_takeWhileD by fastforce
  then have "foldl (\<lambda>b i. b[i := update_cell (vel ! i) (grad ! i) s vmin vmax]) new_vel ?is ! k
               = new_vel ! k"
    by (rule foldl_update_other)
  with assms(1) show ?thesis by (simp add: update_vel_def)
qed

lemma main_bounds: "main_min_vel 5500 1 = 1 \<and> main_max_vel 5500 1 = 121 / 9"
  by (simp add: main_min_vel_def main_max_vel_def vmax_const_def vmin_const_def)




text \<open>
  C7 fails on two inputs of the driver's update (lines 921 to 926, with \<open>dx = 5500\<close> and
  \<open>dt = 1\<close>, for which the bounds are 1 and \<open>121 / 9\<close>; the boundary refill is the
  identity here). First, a model of 16810000 cells (4100 by 4100) that are 0, with a
  zero direction and step length 0: the counter 16809999 converted to \<^verbatim>\<open>float\<close> is
  16810000, not below the size, so the loop ends before the last cell, which stays 0,
  below the lower bound. Second, a model of one cell \<open>3 / 2\<close> with a step length that is
  not a number, as \<^verbatim>\<open>calStepLen\<close> can return: the cell becomes not-a-number, which both
  clamps let through.
\<close>

theorem update_vel_leaves_cells_unclamped:
  "(\<exists>out. main_update_model (\<lambda>v. v) (replicate 16810000 (Num 0)) (replicate 16810000 0)
            (Num 0) 5500 1 = Inr out
      \<and> out ! 16809999 = Num 0 \<and> (0::real) < main_min_vel 5500 1)
   \<and> main_update_model (\<lambda>v. v) [Num (3 / 2)] [1] NaN 5500 1 = Inr [NaN]"
proof -
  have lt: "main_min_vel 5500 1 < main_max_vel 5500 1" by (simp add: main_bounds)
  have stop: "\<not> float_of_nat 16809999 < float_of_nat (length (replicate 16810000 (Num (0::real))))"
    by (simp only: length_replicate float_of_nat_16809999 float_of_nat_16810000)
  from update_vel_skips_cell [OF lt stop]
  obtain out where o: "update_vel (replicate 16810000 (Num 0)) (replicate 16810000 0)
       (float_of_nat (length (replicate 16810000 (Num (0::real))))) (Num 0)
       (main_min_vel 5500 1) (main_max_vel 5500 1)
       (replicate 16810000 (Num 0)) = Inr out"
    "out ! 16809999 = replicate 16810000 (Num 0) ! 16809999"
    by blast
  have n: "replicate 16810000 (Num (0::real)) ! 16809999 = Num 0"
    by (rule nth_replicate) simp
  have m: "main_update_model (\<lambda>v. v) (replicate 16810000 (Num 0))
            (replicate 16810000 0) (Num 0) 5500 1 = Inr out"
    unfolding main_update_model_def o(1) by (simp only: sum.case)
  have p: "(0::real) < main_min_vel 5500 1" by (simp add: main_bounds)
  from m o(2) n p have 1: "\<exists>out. main_update_model (\<lambda>v. v) (replicate 16810000 (Num 0))
            (replicate 16810000 0) (Num 0) 5500 1 = Inr out \<and> out ! 16809999 = Num 0
            \<and> (0::real) < main_min_vel 5500 1"
    by (intro exI [of _ out] conjI) (simp_all only:)
  have 2: "main_update_model (\<lambda>v. v) [Num (3 / 2)] [1] NaN 5500 1 = Inr [NaN]"
    by (simp add: main_update_model_def update_vel_def update_cell_def float_of_nat_def
        main_bounds)
  from 1 2 show ?thesis by blast
qed

text \<open>
  C8: with \<open>vmax \<le> vmin\<close> the process ends before the loop, and the status it ends with
  is 0 (line 512), the status of success.
\<close>

theorem update_vel_bad_bounds_exit_status:
  "update_vel [Num 1700] [1] 1 (Num 1) 2000 2000 [Num 1700] = Inl (Exit 0)"
  by (simp add: update_vel_def)

section \<open>Properties of the virtual source filter\<close>

lemma vsrc_cell_edge: "i < 2 \<or> num \<le> i + 2 \<Longrightarrow> i < num \<Longrightarrow> vsrc_cell t num i = 0"
  by (auto simp: vsrc_cell_def)

text \<open>
  C10: in every output trace of the filter the cells with index below 2 and the cells with
  index \<open>num - 2\<close> and \<open>num - 1\<close> are 0; the output of the filter for one trace is the
  same for any two values of \<open>dt\<close>; and so are the new \<^verbatim>\<open>vsrc\<close> and the written buffer
  of \<^verbatim>\<open>transVsrc\<close>, whatever function \<^verbatim>\<open>matrix_transpose\<close> is.
\<close>

theorem virtual_source_filter_edges_and_dt:
  "(\<forall>i<num. (i < 2 \<or> num \<le> i + 2) \<longrightarrow>
       second_order_virtual_source_forth_accuracy vsrc num dt ! i = 0)
   \<and> length (second_order_virtual_source_forth_accuracy vsrc num dt) = num
   \<and> second_order_virtual_source_forth_accuracy vsrc num dt
       = second_order_virtual_source_forth_accuracy vsrc num dt'
   \<and> transVsrc tr vs nt k dt = transVsrc tr vs nt k dt'"
  by (simp add: second_order_virtual_source_forth_accuracy_def transVsrc_def
      filter_traces_def vsrc_cell_edge)

theorem virtual_source_filter_edges_and_dt_witness:
  "second_order_virtual_source_forth_accuracy [1, 2, 4, 8, 16, 32] 6 (1/1000)
     = [0, 0, 23 / 12, 23 / 6, 0, 0]
   \<and> (\<exists>i<6. (i < 2 \<or> (6::nat) \<le> i + 2) \<and>
         second_order_virtual_source_forth_accuracy [1, 2, 4, 8, 16, 32] 6 (1/1000) ! i = 0)"
proof -
  have e: "second_order_virtual_source_forth_accuracy [1, 2, 4, 8, 16, 32] 6 (1/1000)
             = [0, 0, 23 / 12, 23 / 6, 0, 0]"
  proof -
    have u: "[0..<6] = [0, 1, 2, 3, 4, 5]" by code_simp
    show ?thesis
      by (simp add: second_order_virtual_source_forth_accuracy_def vsrc_cell_def u)
  qed
  from virtual_source_filter_edges_and_dt [of 6 "[1, 2, 4, 8, 16, 32]" "1/1000"]
  have "second_order_virtual_source_forth_accuracy [1, 2, 4, 8, 16, 32] 6 (1/1000) ! 4 = 0"
    by simp
  then have "\<exists>i<6. (i < 2 \<or> (6::nat) \<le> i + 2) \<and>
         second_order_virtual_source_forth_accuracy [1, 2, 4, 8, 16, 32] 6 (1/1000) ! i = 0"
    by (intro exI [of _ 4]) simp
  with e show ?thesis by blast
qed

section \<open>Properties of the conjugate direction\<close>





section \<open>Properties of the backward gradient pass\<close>

lemma hello_fields_g0: "g0 (hello_fields rb fm sp es gp vs nt it s) = g0 s"
  by (simp add: hello_fields_def Let_def split: prod.splits)

lemma cross_correlation_all:
  "cross_correlation a b img (length img) w
     = map (\<lambda>i. img ! i - w * (a ! i * b ! i)) [0..<length img]"
  by (simp add: cross_correlation_def mult.commute)

lemma no_weight: "map (\<lambda>i. img ! i - 0 * f i) [0..<length img] = (img :: real list)"
  using map_nth [of img] by simp

lemma ramp_monotone:
  assumes "\<not> dt * real it > 3 / 10" and "j \<le> it"
  shows "time_ramp dt j = 0"
proof -
  have "dt * real j \<le> 3 / 10"
  proof (cases "0 \<le> dt")
    case True
    then have "dt * real j \<le> dt * real it" using assms(2) by (simp add: mult_left_mono)
    with assms(1) show ?thesis by simp
  next
    case False
    then have "dt * real j \<le> 0" by (simp add: mult_le_0_iff)
    then show ?thesis by simp
  qed
  then show ?thesis by (simp add: time_ramp_def)
qed

lemma ramp_loop_no_weight:
  "(\<forall>j<k. time_ramp dt j = 0) \<Longrightarrow> g0 (ramp_loop rb fm sp es gp vs nt dt k s) = g0 s"
proof (induction k arbitrary: s)
  case 0
  then show ?case by simp
next
  case (Suc k)
  let ?s1 = "hello_fields rb fm sp es gp vs nt k s"
  let ?s2 = "?s1\<lparr>g0 := map (\<lambda>i. g0 ?s1 ! i - 0 * (sp0 ?s1 ! i * gp0 ?s1 ! i))
                          [0..<length (g0 ?s1)]\<rparr>"
  have z: "time_ramp dt k = 0" using Suc.prems by simp
  have "g0 (ramp_loop rb fm sp es gp vs nt dt (Suc k) s)
          = g0 (ramp_loop rb fm sp es gp vs nt dt k ?s2)"
    by (simp add: Let_def z)
  also have "\<dots> = g0 ?s2"
    using Suc.prems by (intro Suc.IH) simp
  also have "\<dots> = g0 s" by (simp add: hello_fields_g0 no_weight del: mult_zero_left)
  finally show ?case .
qed

lemma hello_loop_ramp:
  "g0 (hello_loop rb fm sp es gp vs nt dt k s) = g0 (ramp_loop rb fm sp es gp vs nt dt k s)"
proof (induction k arbitrary: s)
  case 0
  then show ?case by simp
next
  case (Suc k)
  let ?s1 = "hello_fields rb fm sp es gp vs nt k s"
  show ?case
  proof (cases "dt * real k > 3 / 10")
    case True
    then show ?thesis by (simp add: Let_def time_ramp_def cross_correlation_all Suc.IH)
  next
    case False
    then have h: "hello_loop rb fm sp es gp vs nt dt (Suc k) s = ?s1" by (simp add: Let_def)
    have "\<forall>j<Suc k. time_ramp dt j = 0" using ramp_monotone [OF False] by simp
    then have "g0 (ramp_loop rb fm sp es gp vs nt dt (Suc k) s) = g0 s"
      by (rule ramp_loop_no_weight)
    with h show ?thesis by (simp add: hello_fields_g0)
  qed
qed

text \<open>
  C4: the gradient image that \<^verbatim>\<open>hello\<close> returns is the image of the loop that advances
  the fields on every time step from \<open>nt - 1\<close> down to 0 and decreases every cell of the
  image by the product of the two fields times \<open>time_ramp dt it\<close> (1 above 0.4,
  \<open>(dt * it - 0.3) / 0.1\<close> between 0.3 and 0.4, 0 up to 0.3); and the code's loop, entered
  at a step with \<open>dt * it \<le> 0.3\<close>, returns the image it was given.
\<close>

theorem hello_time_ramp:
  "hello rb rnd fm sp es gp vs g nt dt
     = g0 (ramp_loop rb fm sp es gp vs nt dt nt (rnd\<lparr>g0 := g\<rparr>))
   \<and> (\<forall>it s. dt * real it \<le> 3 / 10 \<longrightarrow>
         g0 (hello_loop rb fm sp es gp vs nt dt (Suc it) s) = g0 s)"
  by (simp add: hello_def hello_loop_ramp Let_def hello_fields_g0)

theorem hello_time_ramp_witness:
  "hello (\<lambda>f b. b) \<lparr>sp0 = [2], sp1 = [5], gp0 = [3], gp1 = [7], g0 = []\<rparr>
      idle_methods one_position [0, 0, 0, 0, 0] one_position [0, 0, 0, 0, 0] [100] 5 (1 / 8)
     = [121 / 2]
   \<and> time_ramp (1 / 8) 4 = 1 \<and> time_ramp (1 / 8) 3 = 3 / 4 \<and> time_ramp (1 / 8) 2 = 0
   \<and> (1 / 8) * real 2 \<le> 3 / 10
   \<and> g0 (hello_loop (\<lambda>f b. b) idle_methods one_position [0, 0, 0, 0, 0] one_position
         [0, 0, 0, 0, 0] 5 (1 / 8) (Suc 2)
         \<lparr>sp0 = [2], sp1 = [5], gp0 = [3], gp1 = [7], g0 = [121 / 2]\<rparr>) = [121 / 2]"
proof -
  note t = hello_time_ramp [of "\<lambda>f b. b"
      "\<lparr>sp0 = [2], sp1 = [5], gp0 = [3], gp1 = [7], g0 = []\<rparr>"
      idle_methods one_position "[0, 0, 0, 0, 0]" one_position "[0, 0, 0, 0, 0]" "[100]" 5
      "1 / 8"]
  have n: "(5::nat) = Suc (Suc (Suc (Suc (Suc 0))))" by simp
  have a: "g0 (ramp_loop (\<lambda>f b. b) idle_methods one_position [0, 0, 0, 0, 0] one_position
      [0, 0, 0, 0, 0] 5 (1 / 8) 5 \<lparr>sp0 = [2], sp1 = [5], gp0 = [3], gp1 = [7], g0 = [100]\<rparr>)
      = [121 / 2]"
    unfolding n
    by (simp add: Let_def hello_fields_def time_ramp_def stepBackward_def
        stepForward_def addSource_def subSource_def check_step_def idle_methods_def
        one_position_def)
  have r: "time_ramp (1 / 8) 4 = 1 \<and> time_ramp (1 / 8) 3 = 3 / 4 \<and> time_ramp (1 / 8) 2 = 0"
    by (simp add: time_ramp_def)
  have h: "hello (\<lambda>f b. b) \<lparr>sp0 = [2], sp1 = [5], gp0 = [3], gp1 = [7], g0 = []\<rparr>
      idle_methods one_position [0, 0, 0, 0, 0] one_position [0, 0, 0, 0, 0] [100] 5 (1 / 8)
     = [121 / 2]"
    using t [THEN conjunct1] a by simp
  have c: "(1 / 8) * real 2 \<le> 3 / 10" by simp
  have b: "g0 (hello_loop (\<lambda>f b. b) idle_methods one_position [0, 0, 0, 0, 0] one_position
         [0, 0, 0, 0, 0] 5 (1 / 8) (Suc 2)
         \<lparr>sp0 = [2], sp1 = [5], gp0 = [3], gp1 = [7], g0 = [121 / 2]\<rparr>) = [121 / 2]"
    using t [THEN conjunct2, rule_format, OF c] by simp
  from h r c b show ?thesis by blast
qed

section \<open>Properties of the step length search\<close>

lemma update_vel_one_cell:
  "lo < hi \<Longrightarrow> update_vel [v] [g] (float_of_nat (Suc 0)) s lo hi [b] = Inr [update_cell v g s lo hi]"
  using update_vel_all_cells [of lo hi "[b]" "Suc 0" "[v]" "[g]" s] by simp

lemma echo_misfit:
  "lo < hi \<Longrightarrow> calculate_obj_val echo_externals (echo_methods v) one_position one_position es [e] [g]
     (dat (getVelocity (echo_methods v))) 1 dt f lo hi a
   = Inr ((e - fl_value (update_cell (Num v) g (Num a) lo hi))
          * (e - fl_value (update_cell (Num v) g (Num a) lo hi)))"
  by (simp add: calculate_obj_val_def getVelocity_def echo_methods_def update_vel_one_cell
   echo_externals_def
   bindVelocity_def one_position_def forwardModeling_def forwardModeling_step_def Let_def
   addSource_def stepForward_def recordSeis_def removeDirectArrival_def vectorMinus_def sum_of_squares_def)

lemma doubling_stop:
  assumes "\<not> (t_obj_val3 t < lin \<and> t_obj_val3 t < o1 \<and> t_alpha3 t < M)"
  shows "doubling ev o1 lin M t = Some (Inr t)"
  by (subst doubling.simps) (simp only: assms if_False)

lemma halving_stop:
  assumes "\<not> (iter < max_iter_select_alpha3 \<and> t_obj_val2 t > o1)"
  shows "halving ev o1 iter t = Inr (iter, t)"
  by (subst halving.simps) (simp only: assms if_False)

lemma echo_max_alpha:
  "calMaxAlpha2_3 (getVelocity (echo_methods 1)) [1] 1 201 maxdv_const = (40400, 80800)"
  by (simp add: calMaxAlpha2_3_def calMaxAlpha_cell_def getVelocity_def echo_methods_def
      maxdv_const_def FLT_MAX_def Let_def)

lemma echo_init: "initAlpha2_3 used_alpha 0 80800 = (used_alpha, 1 / 2, 1)"
  by (simp add: initAlpha2_3_def used_alpha_def Let_def)

lemma echo_select:
  "selectAlpha echo_externals (echo_methods 1) one_position one_position [] [3] [1] 1 1 10
       4 0 100 80800 (1 / 2) 1
     = Some (Inr \<lparr>out_alpha2 = 1 / 2, out_obj_val2 = 9 / 4, out_alpha3 = 1, out_obj_val3 = 1,
                  toParabolicFit = True\<rparr>)"
proof -
  have e: "calculate_obj_val echo_externals (echo_methods 1) one_position one_position [] [3] [1]
     (dat (getVelocity (echo_methods 1))) 1 1 10 0 100
       = (\<lambda>a. Inr ((3 - fl_value (update_cell (Num 1) 1 (Num a) 0 100))
                     * (3 - fl_value (update_cell (Num 1) 1 (Num a) 0 100))))"
    by (rule ext) (rule echo_misfit, simp)
  show ?thesis
    unfolding selectAlpha_def e
    by (simp add: selectAlpha_body_def update_cell_def Let_def halving_stop doubling_stop)
qed

lemma echo_select_flat:
  "selectAlpha echo_externals (echo_methods 1) one_position one_position [] [3] [1] 1 1 10
       4 0 1 80800 (1 / 2) 1
     = Some (Inr \<lparr>out_alpha2 = 1 / 2, out_obj_val2 = 4, out_alpha3 = 1, out_obj_val3 = 4,
                  toParabolicFit = True\<rparr>)"
proof -
  have e: "calculate_obj_val echo_externals (echo_methods 1) one_position one_position [] [3] [1]
     (dat (getVelocity (echo_methods 1))) 1 1 10 0 1
       = (\<lambda>a. Inr ((3 - fl_value (update_cell (Num 1) 1 (Num a) 0 1))
                     * (3 - fl_value (update_cell (Num 1) 1 (Num a) 0 1))))"
    by (rule ext) (rule echo_misfit, simp)
  show ?thesis
    unfolding selectAlpha_def e
    by (simp add: selectAlpha_body_def update_cell_def Let_def halving_stop doubling_stop)
qed

lemma echo_run:
  "\<exists>r. calStepLen echo_externals used_alpha (echo_methods 1) one_position one_position [] [3] [1]
     0 1 0 1 201 10 4 0 100 = Some (Inr r) \<and> alpha4 r = Num 2"
  unfolding calStepLen_def echo_max_alpha echo_init Let_def prod.case echo_select
  by (simp add: calcParabolaVertexEnhanced_def calcParabolaVertex_def slopes_nearly_equal_def
      parabola_A_def parabola_B_def parabola_C_def parabola_denom_def)

lemma vertex_defined:
  assumes "\<not> slopes_nearly_equal x1 y1 x2 y2 x3 y3"
  shows "calcParabolaVertex x1 y1 x2 y2 x3 y3 \<noteq> None"
proof
  assume n: "calcParabolaVertex x1 y1 x2 y2 x3 y3 = None"
  then have d: "parabola_denom x1 x2 x3 \<noteq> 0"
    and a: "parabola_A x1 y1 x2 y2 x3 y3 = 0" and b: "parabola_B x1 y1 x2 y2 x3 y3 \<noteq> 0"
    by (auto simp: calcParabolaVertex_def Let_def split: if_splits)
  from d have x: "x1 \<noteq> x2" "x1 \<noteq> x3" "x2 \<noteq> x3" by (auto simp: parabola_denom_def)
  from a d have c: "x3 * (y2 - y1) + x2 * (y1 - y3) + x1 * (y3 - y2) = 0"
    by (simp add: parabola_A_def)
  define k where "k = (y2 - y1) / (x2 - x1)"
  have k1: "y2 - y1 = k * (x2 - x1)" using x by (simp add: k_def)
  have "(y3 - y2) * (x2 - x1) = (y2 - y1) * (x3 - x2)" using c by (simp add: algebra_simps)
  then have k2: "(y3 - y2) / (x3 - x2) = k" using x by (simp add: k_def field_simps)
  have "k \<noteq> 0"
  proof
    assume "k = 0"
    then have "y2 = y1" "y3 = y2" using k1 k2 x by auto
    then have "parabola_B x1 y1 x2 y2 x3 y3 = 0" by (simp add: parabola_B_def)
    with b show False by simp
  qed
  then have "slopes_nearly_equal x1 y1 x2 y2 x3 y3"
    using x k2 by (simp add: slopes_nearly_equal_def Let_def k_def [symmetric])
  with assms show False by simp
qed

text \<open>
  C3 fails on an input where the bracket is found with three equal misfits. The model has
  one cell 1 and the gradient 1, the clamp bounds are 0 and 1, so the cell stays 1 at
  every step length and the misfit against the observed sample 3 is 4, as is the
  baseline. With the stored step length 1, \<^verbatim>\<open>selectAlpha\<close> returns the candidates \<open>1 / 2\<close>
  and 1 and asks for the parabolic fit. The two slopes are 0, which the test of line 734
  does not count as nearly equal, and the coefficients \<open>A\<close> and \<open>B\<close> of the parabola are 0:
  the abscissa of the vertex is 0 divided by 0. \<^verbatim>\<open>calStepLen\<close> returns a step length that is
  not a number, and stores it as the warm start of the next iteration.
\<close>

theorem calStepLen_equal_misfits:
  "selectAlpha echo_externals (echo_methods 1) one_position one_position [] [3] [1] 1 1 10
       4 0 1 80800 (1 / 2) 1
     = Some (Inr \<lparr>out_alpha2 = 1 / 2, out_obj_val2 = 4, out_alpha3 = 1, out_obj_val3 = 4,
                  toParabolicFit = True\<rparr>)
   \<and> (\<exists>r. calStepLen echo_externals used_alpha (echo_methods 1) one_position one_position
            [] [3] [1] 0 1 0 1 201 10 4 0 1 = Some (Inr r)
          \<and> alpha4 r = NaN \<and> obj_val4 r = NaN \<and> getAlpha (preserved r) 0 = NaN)"
proof -
  have "\<exists>r. calStepLen echo_externals used_alpha (echo_methods 1) one_position one_position
            [] [3] [1] 0 1 0 1 201 10 4 0 1 = Some (Inr r)
          \<and> alpha4 r = NaN \<and> obj_val4 r = NaN \<and> getAlpha (preserved r) 0 = NaN"
    unfolding calStepLen_def echo_max_alpha echo_init Let_def prod.case echo_select_flat
    by (simp add: calcParabolaVertexEnhanced_def calcParabolaVertex_def slopes_nearly_equal_def
      parabola_A_def parabola_B_def parabola_C_def parabola_denom_def)
  with echo_select_flat show ?thesis by blast
qed

text \<open>
  C5: \<^verbatim>\<open>initAlpha2_3\<close> leaves the flag of \<open>ivel\<close> set; on the first call for \<open>ivel\<close> the
  stored value becomes \<open>max_alpha3\<close>, on a later call the state is unchanged; \<open>alpha3\<close> is
  the stored value, or \<open>10\<^sup>-\<^sup>4\<close> if that is below \<open>10\<^sup>-\<^sup>7\<close>, and \<open>alpha2\<close> is half of
  \<open>alpha3\<close>; and when \<^verbatim>\<open>calStepLen\<close> returns, the value stored for \<open>ivel\<close> is the step length
  it returns.
\<close>

theorem warm_start_state:
  "(case initAlpha2_3 pa ivel m of (pa', a2, a3) \<Rightarrow>
      getIsInit pa' ivel
      \<and> (\<not> getIsInit pa ivel \<longrightarrow> getAlpha pa' ivel = m)
      \<and> (getIsInit pa ivel \<longrightarrow> pa' = pa)
      \<and> a3 = (if getAlpha pa' ivel < 1 / 10 ^ 7 then 1 / 10 ^ 4 else getAlpha pa' ivel)
      \<and> a2 = a3 / 2)
   \<and> (calStepLen co pa fm sp gp es eo ud iter nt ivel dt dx f o1 lo hi = Some (Inr r)
        \<longrightarrow> getAlpha (preserved r) ivel = alpha4 r)"
proof -
  have 1: "case initAlpha2_3 pa ivel m of (pa', a2, a3) \<Rightarrow>
      getIsInit pa' ivel
      \<and> (\<not> getIsInit pa ivel \<longrightarrow> getAlpha pa' ivel = m)
      \<and> (getIsInit pa ivel \<longrightarrow> pa' = pa)
      \<and> a3 = (if getAlpha pa' ivel < 1 / 10 ^ 7 then 1 / 10 ^ 4 else getAlpha pa' ivel)
      \<and> a2 = a3 / 2"
    by (simp add: initAlpha2_3_def Let_def)
  have 2: "getAlpha (preserved r) ivel = alpha4 r"
    if "calStepLen co pa fm sp gp es eo ud iter nt ivel dt dx f o1 lo hi = Some (Inr r)"
    using that
    by (auto simp: calStepLen_def Let_def split: prod.splits option.splits sum.splits if_splits)
  from 1 2 show ?thesis by blast
qed

theorem warm_start_state_witness:
  "\<not> getIsInit \<lparr>getIsInit = (\<lambda>i. False), getAlpha = (\<lambda>i. 0)\<rparr> 0
   \<and> initAlpha2_3 \<lparr>getIsInit = (\<lambda>i. False), getAlpha = (\<lambda>i. 0)\<rparr> 0 (3 / 100)
       = (\<lparr>getIsInit = (\<lambda>i. False)(0 := True), getAlpha = (\<lambda>i. 0)(0 := 3 / 100)\<rparr>,
          3 / 200, 3 / 100)
   \<and> getIsInit used_alpha 0
   \<and> initAlpha2_3 used_alpha 0 80800 = (used_alpha, 1 / 2, 1)
   \<and> (\<exists>r. calStepLen echo_externals used_alpha (echo_methods 1) one_position one_position
          [] [3] [1] 0 1 0 1 201 10 4 0 100 = Some (Inr r) \<and> alpha4 r = Num 2
          \<and> getAlpha (preserved r) 0 = Num 2)"
proof -
  have i: "initAlpha2_3 \<lparr>getIsInit = (\<lambda>i. False), getAlpha = (\<lambda>i. 0)\<rparr> 0 (3 / 100)
       = (\<lparr>getIsInit = (\<lambda>i. False)(0 := True), getAlpha = (\<lambda>i. 0)(0 := 3 / 100)\<rparr>,
          3 / 200, 3 / 100)"
    by (simp add: initAlpha2_3_def Let_def)
  have u: "getIsInit used_alpha 0" by (simp add: used_alpha_def)
  from echo_run
  obtain r where r: "calStepLen echo_externals used_alpha (echo_methods 1) one_position
      one_position [] [3] [1] 0 1 0 1 201 10 4 0 100 = Some (Inr r)" "alpha4 r = Num 2"
    by blast
  from warm_start_state [where pa = used_alpha and ivel = 0 and co = echo_externals
      and fm = "echo_methods 1" and sp = one_position and gp = one_position and es = "[]"
      and eo = "[3]" and ud = "[1]" and iter = 0 and nt = 1 and dt = 1 and dx = 201 and f = 10
      and ?o1.0 = 4 and lo = 0 and hi = 100 and r = r] r
  have "getAlpha (preserved r) 0 = Num 2" by simp
  with r i u echo_init show ?thesis by auto
qed

subsection \<open>The halving loop and its fallback\<close>

text \<open>
  The order of the set on three pairs whose misfits are \<open>400\<close>, \<open>484\<close> and \<open>529\<close> times
  \<open>2\<^sup>-\<^sup>4\<^sup>0\<close>, inserted in that order: the second is within the tolerance of the first and
  goes to its left, the third is not and goes to its right.
\<close>

lemma set_insert_order:
  "inorder (set_insert (2, 529 / 2 ^ 40) (set_insert (1, 484 / 2 ^ 40)
      (set_insert (0, 400 / 2 ^ 40) Leaf)))
   = [(1, 484 / 2 ^ 40), (0, 400 / 2 ^ 40), (2, 529 / 2 ^ 40)]"
  by (simp add: set_insert_def parabolicLessComp_def fix_left_def fix_right_def)

text \<open>
  C2 fails on an input: one cell \<open>2\<^sup>-\<^sup>1\<^sup>0\<close>, gradient 1, observed sample
  \<open>2\<^sup>-\<^sup>1\<^sup>0 + 22 * 2\<^sup>-\<^sup>2\<^sup>0\<close>, so that the misfit at step \<open>a\<close> is \<open>(22 * 2\<^sup>-\<^sup>2\<^sup>0 - a)\<^sup>2\<close>; baseline
  0 and first candidate \<open>2\<^sup>-\<^sup>1\<^sup>9\<close>. The six misfits, from \<open>400 * 2\<^sup>-\<^sup>4\<^sup>0\<close> for the first
  candidate up to \<open>123201 * 2\<^sup>-\<^sup>4\<^sup>8\<close> for the last, lie within \<open>10\<^sup>-\<^sup>1\<^sup>0\<close> of each other, so
  every insertion goes to the leftmost position of the set, and the candidate selected
  is the last one tried, \<open>2\<^sup>-\<^sup>2\<^sup>4\<close>, whose misfit is the greatest of the six, not the
  first, whose misfit is the least.
\<close>

theorem selectAlpha_fallback_not_least:
  "selectAlpha echo_externals (echo_methods (1 / 1024)) one_position one_position []
       [523 / 524288] [1] 1 1 10 0 0 1 1 (1 / 524288) (1 / 262144)
     = Some (Inr \<lparr>out_alpha2 = 1 / 16777216, out_obj_val2 = 123201 / 281474976710656,
                  out_alpha3 = 1 / 8388608, out_obj_val3 = 30625 / 70368744177664,
                  toParabolicFit = False\<rparr>)
   \<and> calculate_obj_val echo_externals (echo_methods (1 / 1024)) one_position one_position []
       [523 / 524288] [1] (dat (getVelocity (echo_methods (1 / 1024)))) 1 1 10 0 1 (1 / 524288)
     = Inr (25 / 68719476736)
   \<and> (25 / 68719476736 :: real) < 123201 / 281474976710656"
proof -
  have e: "calculate_obj_val echo_externals (echo_methods (1 / 1024)) one_position one_position
     [] [523 / 524288] [1] (dat (getVelocity (echo_methods (1 / 1024)))) 1 1 10 0 1
       = (\<lambda>a. Inr ((523 / 524288 - fl_value (update_cell (Num (1 / 1024)) 1 (Num a) 0 1))
                     * (523 / 524288 - fl_value (update_cell (Num (1 / 1024)) 1 (Num a) 0 1))))"
    by (rule ext) (rule echo_misfit, simp)
  show ?thesis
    unfolding selectAlpha_def e
    by (simp add: selectAlpha_body_def halving.simps update_cell_def Let_def
        set_insert_def fix_left_def fix_right_def
        parabolicLessComp_def max_iter_select_alpha3_def)
qed

section \<open>Properties of the geometry check\<close>

text \<open>
  C9, the code at a geometry with a negative jump: 2 sources, the first in column 1000 of
  a grid of 20 columns, the jump \<open>- 990\<close>. Only the first point is compared with 0 and
  only the last with \<open>nx\<close>, so the check passes, and source 0 lies outside the grid (also
  outside the grid padded by the default sponge of 30 cells on each side).
\<close>

theorem check_accepts_source_outside_grid:
  "check \<lparr>nz = 10, nx = 20, ng = 1, ns = 2, sxbeg = 1000, szbeg = 0, gxbeg = 0, gzbeg = 0,
          jsx = - 990, jsz = 0, jgx = 1, jgz = 0\<rparr> = Inr ()
   \<and> source_x \<lparr>nz = 10, nx = 20, ng = 1, ns = 2, sxbeg = 1000, szbeg = 0, gxbeg = 0,
          gzbeg = 0, jsx = - 990, jsz = 0, jgx = 1, jgz = 0\<rparr> 0 = 1000
   \<and> \<not> source_in_grid \<lparr>nz = 10, nx = 20, ng = 1, ns = 2, sxbeg = 1000, szbeg = 0,
          gxbeg = 0, gzbeg = 0, jsx = - 990, jsz = 0, jgx = 1, jgz = 0\<rparr> 0"
  by (simp add: check_def source_in_grid_def source_x_def source_z_def
      word_sle_eq word_sless_alt)

end
